theory Spec2Isabelle
  imports Main "HOL-Library.Word"
begin

section \<open>Data model\<close>

text \<open>
  The handlers of \<^verbatim>\<open>pkg/api/handlers\<close> work on documents of three collections
  (users, organizations, feature flags). The struct declarations live in the
  \<^verbatim>\<open>models\<close> package; the fields below are the ones the handlers and their tests read
  and write. Field names carry a prefix where two structs share a name.
\<close>

text \<open>\<^verbatim>\<open>primitive.ObjectID\<close> is a 12-byte value, \<^verbatim>\<open>primitive.DateTime\<close> an int64.\<close>

type_synonym object_id = "96 word"
type_synonym date_time = "64 word"

text \<open>\<^verbatim>\<open>storage.Timestamps\<close> (pkg/storage/mongo_utils.go), with the source's spelling.\<close>

record Timestamps =
  CreatedAt :: date_time
  UpadtedAt :: date_time
  DeletedAt :: date_time

text \<open>
  Modelled from the spec: \<^verbatim>\<open>models.Rule\<close> is declared outside the sources; the spec calls
  it opaque structured condition data. A rule is kept as its encoded content, and the zero
  value is the empty content.
\<close>

datatype Rule = Rule string

text \<open>
  Modelled from the spec: the revision status constants \<^verbatim>\<open>models.Draft\<close> and
  \<^verbatim>\<open>models.Live\<close>; the spec gives a revision exactly these two states.
\<close>

datatype RevisionStatus = Draft | Live

text \<open>
  Modelled from the spec: the organization permission levels \<^verbatim>\<open>models.ReadOnly\<close> and
  \<^verbatim>\<open>models.Collaborator\<close>.
\<close>

datatype PermissionLevel = ReadOnly | Collaborator

text \<open>
  Modelled from the spec: the revision struct of the \<^verbatim>\<open>models\<close> package (identifier,
  author, status, default value, ordered rules, creation time). The handler reads and
  writes \<^verbatim>\<open>ID\<close> and \<^verbatim>\<open>Status\<close>.
\<close>

record Revision =
  rev_ID :: object_id
  rev_UserID :: object_id
  rev_Status :: RevisionStatus
  rev_DefaultValue :: string
  rev_Rules :: "Rule list"
  rev_CreatedAt :: date_time

text \<open>
  Modelled from the spec: the flag struct of the \<^verbatim>\<open>models\<close> package (identifier, owning
  organization, creator, integer version counter, name, type, ordered revisions,
  timestamps). The handlers read and write \<^verbatim>\<open>Version\<close> and \<^verbatim>\<open>Revisions\<close>. The counter
  is a Go integer, taken as a 64-bit word: \<^verbatim>\<open>Version++\<close> is the machine increment, which
  wraps at the width of the type.
\<close>

type_synonym version_t = "64 word"

record FeatureFlagRecord =
  ff_ID :: object_id
  ff_OrganizationID :: object_id
  ff_UserID :: object_id
  ff_Version :: version_t
  ff_Name :: string
  ff_Type :: string
  ff_Revisions :: "Revision list"
  ff_Timestamps :: Timestamps

text \<open>
  Modelled from the spec: an organization is an identifier and its members, each with a
  role; a user is an account with a unique e-mail, the hashed password and the names.
\<close>

record OrganizationRecord =
  org_ID :: object_id
  org_Members :: "(object_id \<times> PermissionLevel) list"

record UserRecord =
  usr_ID :: object_id
  usr_Email :: string
  usr_Password :: string
  usr_FirstName :: string
  usr_LastName :: string
  usr_Timestamps :: Timestamps

text \<open>The database: one list of documents per collection, in insertion order.\<close>

record Database =
  users :: "UserRecord list"
  organizations :: "OrganizationRecord list"
  feature_flags :: "FeatureFlagRecord list"

subsection \<open>Requests and responses\<close>


record SignInRequest =
  signin_Email :: string
  signin_Password :: string

record PostFeatureFlagRequest =
  Name :: string
  Type :: string
  DefaultValue :: string
  Rules :: "Rule list"

record PatchFeatureFlagRequest =
  patch_DefaultValue :: string
  patch_Rules :: "Rule list"

record ListFeatureFlagResponse =
  Data :: "FeatureFlagRecord list"
  Page :: int
  PageSize :: int
  Total :: int

text \<open>\<^verbatim>\<open>common.AuthResponse\<close>, with the fields the sign-up handler fills.\<close>

record AuthResponse =
  auth_ID :: object_id
  auth_Email :: string
  auth_FirstName :: string
  auth_LastName :: string
  auth_Token :: string

datatype http_status =
    StatusOK | StatusCreated | StatusNoContent
  | StatusBadRequest | StatusUnauthorized | StatusForbidden | StatusNotFound
  | StatusConflict | StatusInternalServerError

text \<open>The message codes of the error package, by the names the handlers use.\<close>

datatype api_error =
    EmailConflictError | InternalServerError | BadRequestError
  | UnauthorizedError | ForbiddenError | NotFoundError

datatype response_body =
    ErrorBody api_error
  | BindErrorBody string
  | AuthBody AuthResponse
  | ListBody ListFeatureFlagResponse
  | FeatureFlagBody FeatureFlagRecord
  | RevisionBody Revision
  | NoBody

type_synonym response = "http_status \<times> response_body"

text \<open>
  Modelled from the spec: \<^verbatim>\<open>apierrors.CustomError\<close> writes a JSON error body with the
  given status and message code.
\<close>

definition CustomError :: "http_status \<Rightarrow> api_error \<Rightarrow> response" where
  "CustomError st msg = (st, ErrorBody msg)"

subsection \<open>The request context and the collaborators\<close>

text \<open>
  The echo context of one request. \<open>ContextUserID\<close> is the outcome of
  \<^verbatim>\<open>apiutils.GetObjectIDFromContext\<close> (\<open>None\<close> when the caller is not identified),
  \<open>Param\<close> and \<open>QueryParam\<close> are the path and query parameters, \<open>Bind\<close> the outcome of
  binding the body (\<open>Inl\<close> the binding error).
\<close>

record 'b Context =
  ContextUserID :: "object_id option"
  Param :: "string \<Rightarrow> string"
  QueryParam :: "string \<Rightarrow> string"
  Bind :: "string + 'b"

text \<open>
  What the handlers obtain from outside the repository or from helpers whose code is not
  among the sources, as parameters: the identifier \<^verbatim>\<open>primitive.NewObjectID\<close> yields, the
  clock, the lower-casing of strings (\<^verbatim>\<open>strings.ToLower\<close>), bcrypt, the token signer, the
  pagination parser and the flag constructor.
\<close>

record Env =
  NewObjectID :: object_id
  Now :: date_time
  ToLower :: "string \<Rightarrow> string"
  GenerateFromPassword :: "string \<Rightarrow> string option"
  CompareHashAndPassword :: "string \<Rightarrow> string \<Rightarrow> bool"
  CreateJWT :: "object_id \<Rightarrow> string option"
  GetPaginationParams :: "string \<Rightarrow> string \<Rightarrow> int \<times> int"
  NewFeatureFlagRecord ::
    "string \<Rightarrow> string \<Rightarrow> string \<Rightarrow> Rule list \<Rightarrow> object_id \<Rightarrow> object_id \<Rightarrow> FeatureFlagRecord"

section \<open>Identifiers\<close>

text \<open>
  \<^verbatim>\<open>primitive.ObjectIDFromHex\<close>: exactly 24 hexadecimal digits, either case, decoded to
  the 12 bytes of the identifier.
\<close>

definition fromHexChar :: "char \<Rightarrow> nat option" where
  "fromHexChar c =
     (let n = (of_char c :: nat) in
      if 48 \<le> n \<and> n \<le> 57 then Some (n - 48)
      else if 97 \<le> n \<and> n \<le> 102 then Some (n - 87)
      else if 65 \<le> n \<and> n \<le> 70 then Some (n - 55)
      else None)"

fun hex_decode :: "string \<Rightarrow> nat \<Rightarrow> nat option" where
  "hex_decode [] acc = Some acc"
| "hex_decode (c # cs) acc =
     (case fromHexChar c of
        None \<Rightarrow> None
      | Some d \<Rightarrow> hex_decode cs (acc * 16 + d))"

definition ObjectIDFromHex :: "string \<Rightarrow> object_id option" where
  "ObjectIDFromHex s =
     (if length s \<noteq> 24 then None else map_option of_nat (hex_decode s 0))"

section \<open>Repositories\<close>

text \<open>
  The repository layer (package \<^verbatim>\<open>models\<close>) is not among the sources. Its operations
  are modelled from the spec over the in-memory collections; a call fails exactly when the
  document it addresses does not exist. Failures of the database driver itself are outside
  the model.
\<close>

datatype storage_error = ErrNoDocuments

text \<open>
  Modelled from the spec: \<^verbatim>\<open>UserModel.FindByEmail\<close> (lookup by email) and
  \<^verbatim>\<open>UserModel.InsertOne\<close> (persists the user and returns its identifier).
\<close>

definition UserModel_FindByEmail :: "Database \<Rightarrow> string \<Rightarrow> storage_error + UserRecord" where
  "UserModel_FindByEmail db email =
     (case find (\<lambda>u. usr_Email u = email) (users db) of
        None \<Rightarrow> Inl ErrNoDocuments
      | Some u \<Rightarrow> Inr u)"

definition UserModel_InsertOne ::
  "Database \<Rightarrow> UserRecord \<Rightarrow> storage_error + (object_id \<times> Database)" where
  "UserModel_InsertOne db ur = Inr (usr_ID ur, db\<lparr>users := users db @ [ur]\<rparr>)"

text \<open>
  Modelled from the spec: \<^verbatim>\<open>models.NewUserRecord\<close> hashes the password and builds the
  account; it fails when hashing fails. The e-mail is stored in lower case, as the spec's
  data model has it (a user's e-mail is unique and lowercased).
\<close>

definition NewUserRecord ::
  "Env \<Rightarrow> string \<Rightarrow> string \<Rightarrow> string \<Rightarrow> string \<Rightarrow> string + UserRecord" where
  "NewUserRecord e email password firstName lastName =
     (case GenerateFromPassword e password of
        None \<Rightarrow> Inl ''bcrypt''
      | Some h \<Rightarrow>
          Inr \<lparr>usr_ID = NewObjectID e, usr_Email = ToLower e email, usr_Password = h,
               usr_FirstName = firstName, usr_LastName = lastName,
               usr_Timestamps = \<lparr>CreatedAt = Now e, UpadtedAt = Now e, DeletedAt = 0\<rparr>\<rparr>)"

text \<open>
  Modelled from the spec: \<^verbatim>\<open>OrganizationModel.FindByID\<close> reads the organization with
  the given identifier.
\<close>

definition OrganizationModel_FindByID ::
  "Database \<Rightarrow> object_id \<Rightarrow> storage_error + OrganizationRecord" where
  "OrganizationModel_FindByID db organizationID =
     (case find (\<lambda>org. org_ID org = organizationID) (organizations db) of
        None \<Rightarrow> Inl ErrNoDocuments
      | Some org \<Rightarrow> Inr org)"

text \<open>
  Modelled from the spec: \<^verbatim>\<open>apiutils.UserHasPermission\<close>, the permission check. Given
  the acting user, an organization record and a required level, it tells whether the
  user's membership role is at least as privileged as required (Collaborator implies
  ReadOnly); a user who is not a member gets false.
\<close>

fun privilege :: "PermissionLevel \<Rightarrow> nat" where
  "privilege ReadOnly = 0"
| "privilege Collaborator = 1"

definition member_role :: "OrganizationRecord \<Rightarrow> object_id \<Rightarrow> PermissionLevel option" where
  "member_role organization userID = map_of (org_Members organization) userID"

definition UserHasPermission ::
  "object_id \<Rightarrow> OrganizationRecord \<Rightarrow> PermissionLevel \<Rightarrow> bool" where
  "UserHasPermission userID organization required =
     (case member_role organization userID of
        None \<Rightarrow> False
      | Some role \<Rightarrow> privilege required \<le> privilege role)"

text \<open>
  Modelled from the spec: the feature flag repository. \<^verbatim>\<open>FindByID\<close> reads a flag by
  identifier (a soft-deleted flag stays readable); \<^verbatim>\<open>FindMany\<close> returns one page of the
  flags of an organization; \<^verbatim>\<open>InsertOne\<close> persists a flag; \<^verbatim>\<open>UpdateOne\<close> applies an
  update document to the flag with the given identifier and fails when there is none.
\<close>

definition FeatureFlagModel_FindByID ::
  "Database \<Rightarrow> object_id \<Rightarrow> storage_error + FeatureFlagRecord" where
  "FeatureFlagModel_FindByID db featureFlagID =
     (case find (\<lambda>f. ff_ID f = featureFlagID) (feature_flags db) of
        None \<Rightarrow> Inl ErrNoDocuments
      | Some f \<Rightarrow> Inr f)"

definition FeatureFlagModel_FindMany ::
  "Database \<Rightarrow> object_id \<Rightarrow> int \<Rightarrow> int \<Rightarrow> storage_error + FeatureFlagRecord list" where
  "FeatureFlagModel_FindMany db organizationID page limit =
     Inr (take (nat limit)
           (drop (nat ((page - 1) * limit))
             (filter (\<lambda>f. ff_OrganizationID f = organizationID) (feature_flags db))))"

definition FeatureFlagModel_InsertOne ::
  "Database \<Rightarrow> FeatureFlagRecord \<Rightarrow> storage_error + (object_id \<times> Database)" where
  "FeatureFlagModel_InsertOne db f =
     Inr (ff_ID f, db\<lparr>feature_flags := feature_flags db @ [f]\<rparr>)"

text \<open>
  The three update documents the handlers send: \<^verbatim>\<open>$push\<close> of a revision, \<^verbatim>\<open>$set\<close> of
  version and revisions, \<^verbatim>\<open>$set\<close> of the deletion time.
\<close>

datatype update =
    PushRevision Revision
  | SetVersionRevisions version_t "Revision list"
  | SetDeletedAt date_time

fun apply_update :: "update \<Rightarrow> FeatureFlagRecord \<Rightarrow> FeatureFlagRecord" where
  "apply_update (PushRevision r) f = f\<lparr>ff_Revisions := ff_Revisions f @ [r]\<rparr>"
| "apply_update (SetVersionRevisions v rs) f = f\<lparr>ff_Version := v, ff_Revisions := rs\<rparr>"
| "apply_update (SetDeletedAt t) f =
     f\<lparr>ff_Timestamps := (ff_Timestamps f)\<lparr>DeletedAt := t\<rparr>\<rparr>"

fun update_first ::
  "object_id \<Rightarrow> update \<Rightarrow> FeatureFlagRecord list \<Rightarrow> FeatureFlagRecord list option" where
  "update_first featureFlagID u [] = None"
| "update_first featureFlagID u (f # fs) =
     (if ff_ID f = featureFlagID then Some (apply_update u f # fs)
      else map_option ((#) f) (update_first featureFlagID u fs))"

definition FeatureFlagModel_UpdateOne ::
  "Database \<Rightarrow> object_id \<Rightarrow> update \<Rightarrow> storage_error + (object_id \<times> Database)" where
  "FeatureFlagModel_UpdateOne db featureFlagID u =
     (case update_first featureFlagID u (feature_flags db) of
        None \<Rightarrow> Inl ErrNoDocuments
      | Some fs \<Rightarrow> Inr (featureFlagID, db\<lparr>feature_flags := fs\<rparr>))"

text \<open>
  Modelled from the spec: \<^verbatim>\<open>models.NewRevisionRecord\<close> builds a revision with status
  Draft, authored by the given user, with a fresh identifier and the current time.
\<close>

definition NewRevisionRecord :: "Env \<Rightarrow> string \<Rightarrow> Rule list \<Rightarrow> object_id \<Rightarrow> Revision" where
  "NewRevisionRecord e defaultValue rules userID =
     \<lparr>rev_ID = NewObjectID e, rev_UserID = userID, rev_Status = Draft,
      rev_DefaultValue = defaultValue, rev_Rules = rules, rev_CreatedAt = Now e\<rparr>"

section \<open>Request validation\<close>

text \<open>
  The validation tags of the two request structs, read as the validator library reads
  them: \<^verbatim>\<open>required\<close> refuses the zero value, \<^verbatim>\<open>oneof\<close> restricts to the listed words,
  \<^verbatim>\<open>dive,required\<close> refuses a zero element of the list.
\<close>

definition required_rule :: "Rule \<Rightarrow> bool" where
  "required_rule r = (r \<noteq> Rule [])"

definition validate_PostFeatureFlagRequest :: "PostFeatureFlagRequest \<Rightarrow> bool" where
  "validate_PostFeatureFlagRequest request =
     (Name request \<noteq> [] \<and>
      Type request \<noteq> [] \<and>
      List.member [''boolean'', ''json'', ''string'', ''number''] (Type request) \<and>
      DefaultValue request \<noteq> [] \<and>
      list_all required_rule (Rules request))"

definition validate_PatchFeatureFlagRequest :: "PatchFeatureFlagRequest \<Rightarrow> bool" where
  "validate_PatchFeatureFlagRequest request = list_all required_rule (patch_Rules request)"

section \<open>Authentication handlers\<close>


text \<open>
  Modelled from the spec: \<^verbatim>\<open>SignInHandler.PostSignIn\<close>, of which the sources hold the
  tests only. Input e-mail and password; NotFound when the e-mail is not registered,
  Unauthorized when the password does not match the stored hash, otherwise Ok with the
  response shape of sign-up. As in sign-up, a body that does not bind is a BadRequest and
  a token that cannot be issued an InternalServerError.
\<close>

definition PostSignIn :: "Env \<Rightarrow> SignInRequest Context \<Rightarrow> Database \<Rightarrow> response \<times> Database" where
  "PostSignIn e c db =
     (case Bind c of
        Inl err \<Rightarrow> ((StatusBadRequest, BindErrorBody err), db)
      | Inr req \<Rightarrow>
     (case UserModel_FindByEmail db (signin_Email req) of
        Inl notFound \<Rightarrow> (CustomError StatusNotFound NotFoundError, db)
      | Inr ur \<Rightarrow>
          if \<not> CompareHashAndPassword e (usr_Password ur) (signin_Password req)
          then (CustomError StatusUnauthorized UnauthorizedError, db)
          else
     (case CreateJWT e (usr_ID ur) of
        None \<Rightarrow> (CustomError StatusInternalServerError InternalServerError, db)
      | Some token \<Rightarrow>
          ((StatusOK,
            AuthBody \<lparr>auth_ID = usr_ID ur, auth_Email = usr_Email ur,
                      auth_FirstName = usr_FirstName ur, auth_LastName = usr_LastName ur,
                      auth_Token = token\<rparr>), db))))"

section \<open>Feature flag handlers\<close>

text \<open>
  The five handlers of \<^verbatim>\<open>FeatureFlagHandler\<close>. Each early return of the source is a
  branch, in the source's order. The debug log lines are not modelled.
\<close>

definition ListFeatureFlags :: "Env \<Rightarrow> 'b Context \<Rightarrow> Database \<Rightarrow> response \<times> Database" where
  "ListFeatureFlags e c db =
     (let pageQuery = QueryParam c ''page'';
          limitQuery = QueryParam c ''page_size'';
          (page, limit) = GetPaginationParams e pageQuery limitQuery
      in
     (case ContextUserID c of
        None \<Rightarrow> (CustomError StatusUnauthorized UnauthorizedError, db)
      | Some userID \<Rightarrow>
     (case ObjectIDFromHex (Param c ''organizationID'') of
        None \<Rightarrow> (CustomError StatusBadRequest BadRequestError, db)
      | Some organizationID \<Rightarrow>
     (case OrganizationModel_FindByID db organizationID of
        Inl err \<Rightarrow> (CustomError StatusInternalServerError InternalServerError, db)
      | Inr organization \<Rightarrow>
          if \<not> UserHasPermission userID organization ReadOnly
          then (CustomError StatusForbidden ForbiddenError, db)
          else
     (case FeatureFlagModel_FindMany db organizationID page limit of
        Inl err \<Rightarrow> (CustomError StatusInternalServerError InternalServerError, db)
      | Inr featureFlags \<Rightarrow>
          ((StatusOK,
            ListBody \<lparr>Data = featureFlags, Page = page, PageSize = limit,
                      Total = int (length featureFlags)\<rparr>), db))))))"

definition PostFeatureFlag ::
  "Env \<Rightarrow> PostFeatureFlagRequest Context \<Rightarrow> Database \<Rightarrow> response \<times> Database" where
  "PostFeatureFlag e c db =
     (case ContextUserID c of
        None \<Rightarrow> (CustomError StatusUnauthorized UnauthorizedError, db)
      | Some userID \<Rightarrow>
     (case ObjectIDFromHex (Param c ''organizationID'') of
        None \<Rightarrow> (CustomError StatusBadRequest BadRequestError, db)
      | Some organizationID \<Rightarrow>
     (case OrganizationModel_FindByID db organizationID of
        Inl err \<Rightarrow> (CustomError StatusInternalServerError InternalServerError, db)
      | Inr organizationRecord \<Rightarrow>
          if \<not> UserHasPermission userID organizationRecord Collaborator
          then (CustomError StatusForbidden ForbiddenError, db)
          else
     (case Bind c of
        Inl err \<Rightarrow> (CustomError StatusBadRequest BadRequestError, db)
      | Inr request \<Rightarrow>
          if \<not> validate_PostFeatureFlagRequest request
          then (CustomError StatusBadRequest BadRequestError, db)
          else
            (let featureFlagRecord =
                   NewFeatureFlagRecord e (Name request) (DefaultValue request) (Type request)
                     (Rules request) organizationID userID
             in
     (case FeatureFlagModel_InsertOne db featureFlagRecord of
        Inl err \<Rightarrow> (CustomError StatusInternalServerError InternalServerError, db)
      | Inr (objectID, db') \<Rightarrow>
          ((StatusCreated, FeatureFlagBody featureFlagRecord), db')))))))"

text \<open>
  \<^verbatim>\<open>PatchFeatureFlag\<close> binds the request and pushes the new revision. It does not run
  the validator on the bound request.
\<close>

definition PatchFeatureFlag ::
  "Env \<Rightarrow> PatchFeatureFlagRequest Context \<Rightarrow> Database \<Rightarrow> response \<times> Database" where
  "PatchFeatureFlag e c db =
     (case ContextUserID c of
        None \<Rightarrow> (CustomError StatusUnauthorized UnauthorizedError, db)
      | Some userID \<Rightarrow>
     (case ObjectIDFromHex (Param c ''organizationID'') of
        None \<Rightarrow> (CustomError StatusBadRequest BadRequestError, db)
      | Some organizationID \<Rightarrow>
     (case OrganizationModel_FindByID db organizationID of
        Inl err \<Rightarrow> (CustomError StatusInternalServerError InternalServerError, db)
      | Inr organizationRecord \<Rightarrow>
          if \<not> UserHasPermission userID organizationRecord Collaborator
          then (CustomError StatusForbidden ForbiddenError, db)
          else
     (case ObjectIDFromHex (Param c ''featureFlagID'') of
        None \<Rightarrow> (CustomError StatusBadRequest BadRequestError, db)
      | Some featureFlagID \<Rightarrow>
     (case Bind c of
        Inl err \<Rightarrow> (CustomError StatusBadRequest BadRequestError, db)
      | Inr request \<Rightarrow>
          (let revision =
                 NewRevisionRecord e (patch_DefaultValue request) (patch_Rules request) userID
           in
     (case FeatureFlagModel_UpdateOne db featureFlagID (PushRevision revision) of
        Inl err \<Rightarrow> (CustomError StatusInternalServerError InternalServerError, db)
      | Inr (objectID, db') \<Rightarrow> ((StatusOK, RevisionBody revision), db'))))))))"

text \<open>
  The loop of \<^verbatim>\<open>ApproveRevision\<close> over the revisions, by index. \<^verbatim>\<open>revision\<close> is the
  copy of the element that \<^verbatim>\<open>range\<close> takes at the start of the iteration (the flag holds
  its revisions by value, which is why the source assigns through
  \<^verbatim>\<open>Revisions[index]\<close>): both tests read the status the element had before the
  iteration.
\<close>

function approve_range :: "object_id \<Rightarrow> nat \<Rightarrow> Revision list \<Rightarrow> Revision list" where
  "approve_range revisionID index revisions =
     (if index < length revisions then
        (let revision = revisions ! index;
             revisions1 =
               (if rev_Status revision = Live
                then revisions[index := (revisions ! index)\<lparr>rev_Status := Draft\<rparr>]
                else revisions);
             revisions2 =
               (if rev_ID revision = revisionID \<and> rev_Status revision \<noteq> Live
                then revisions1[index := (revisions1 ! index)\<lparr>rev_Status := Live\<rparr>]
                else revisions1)
         in approve_range revisionID (Suc index) revisions2)
      else revisions)"
  by pat_completeness auto
termination
  by (relation "measure (\<lambda>(revisionID, index, revisions). length revisions - index)") auto

declare approve_range.simps [simp del]

definition ApproveRevision :: "Env \<Rightarrow> 'b Context \<Rightarrow> Database \<Rightarrow> response \<times> Database" where
  "ApproveRevision e c db =
     (case ContextUserID c of
        None \<Rightarrow> (CustomError StatusUnauthorized UnauthorizedError, db)
      | Some userID \<Rightarrow>
     (case ObjectIDFromHex (Param c ''organizationID'') of
        None \<Rightarrow> (CustomError StatusBadRequest BadRequestError, db)
      | Some organizationID \<Rightarrow>
     (case OrganizationModel_FindByID db organizationID of
        Inl err \<Rightarrow> (CustomError StatusInternalServerError InternalServerError, db)
      | Inr organizationRecord \<Rightarrow>
          if \<not> UserHasPermission userID organizationRecord Collaborator
          then (CustomError StatusForbidden ForbiddenError, db)
          else
     (case ObjectIDFromHex (Param c ''featureFlagID'') of
        None \<Rightarrow> (CustomError StatusBadRequest BadRequestError, db)
      | Some featureFlagID \<Rightarrow>
     (case ObjectIDFromHex (Param c ''revisionID'') of
        None \<Rightarrow> (CustomError StatusBadRequest BadRequestError, db)
      | Some revisionID \<Rightarrow>
     (case FeatureFlagModel_FindByID db featureFlagID of
        Inl err \<Rightarrow> (CustomError StatusInternalServerError InternalServerError, db)
      | Inr loaded \<Rightarrow>
          (let featureFlagRecord =
                 loaded\<lparr>ff_Revisions := approve_range revisionID 0 (ff_Revisions loaded),
                        ff_Version := ff_Version loaded + 1\<rparr>
           in
     (case FeatureFlagModel_UpdateOne db featureFlagID
             (SetVersionRevisions (ff_Version featureFlagRecord)
                (ff_Revisions featureFlagRecord)) of
        Inl err \<Rightarrow> (CustomError StatusInternalServerError InternalServerError, db)
      | Inr (objectID, db') \<Rightarrow> ((StatusOK, FeatureFlagBody featureFlagRecord), db')))))))))"

definition DeleteFeatureFlag :: "Env \<Rightarrow> 'b Context \<Rightarrow> Database \<Rightarrow> response \<times> Database" where
  "DeleteFeatureFlag e c db =
     (case ContextUserID c of
        None \<Rightarrow> (CustomError StatusUnauthorized UnauthorizedError, db)
      | Some userID \<Rightarrow>
     (case ObjectIDFromHex (Param c ''organizationID'') of
        None \<Rightarrow> (CustomError StatusBadRequest BadRequestError, db)
      | Some organizationID \<Rightarrow>
     (case OrganizationModel_FindByID db organizationID of
        Inl err \<Rightarrow> (CustomError StatusInternalServerError InternalServerError, db)
      | Inr organizationRecord \<Rightarrow>
          if \<not> UserHasPermission userID organizationRecord Collaborator
          then (CustomError StatusForbidden ForbiddenError, db)
          else
     (case ObjectIDFromHex (Param c ''featureFlagID'') of
        None \<Rightarrow> (CustomError StatusBadRequest BadRequestError, db)
      | Some featureFlagID \<Rightarrow>
     (case FeatureFlagModel_UpdateOne db featureFlagID (SetDeletedAt (Now e)) of
        Inl err \<Rightarrow> (CustomError StatusInternalServerError InternalServerError, db)
      | Inr (objectID, db') \<Rightarrow> ((StatusNoContent, NoBody), db'))))))"

section \<open>A sample database\<close>

text \<open>
  One organization with a Collaborator and a ReadOnly member, and one flag of that
  organization whose first revision is Live and whose second is Draft. The concrete
  instances of the theorems below are taken on it.
\<close>

definition sample_organization :: OrganizationRecord where
  "sample_organization = \<lparr>org_ID = 0xa1, org_Members = [(0xc1, Collaborator), (0xc2, ReadOnly)]\<rparr>"

definition sample_live :: Revision where
  "sample_live =
     \<lparr>rev_ID = 1, rev_UserID = 0xc1, rev_Status = Live, rev_DefaultValue = ''on'',
      rev_Rules = [], rev_CreatedAt = 1000\<rparr>"

definition sample_draft :: Revision where
  "sample_draft =
     \<lparr>rev_ID = 2, rev_UserID = 0xc1, rev_Status = Draft, rev_DefaultValue = ''off'',
      rev_Rules = [], rev_CreatedAt = 2000\<rparr>"

definition sample_flag :: FeatureFlagRecord where
  "sample_flag =
     \<lparr>ff_ID = 0xf1, ff_OrganizationID = 0xa1, ff_UserID = 0xc1, ff_Version = 1,
      ff_Name = ''dark-mode'', ff_Type = ''boolean'',
      ff_Revisions = [sample_live, sample_draft],
      ff_Timestamps = \<lparr>CreatedAt = 1000, UpadtedAt = 2000, DeletedAt = 0\<rparr>\<rparr>"

definition sample_user :: UserRecord where
  "sample_user =
     \<lparr>usr_ID = 0xc1, usr_Email = ''fizi@gmail.com'', usr_Password = ''hash:123123'',
      usr_FirstName = ''fizi'', usr_LastName = ''valores'',
      usr_Timestamps = \<lparr>CreatedAt = 500, UpadtedAt = 500, DeletedAt = 0\<rparr>\<rparr>"

definition sample_db :: Database where
  "sample_db =
     \<lparr>users = [sample_user], organizations = [sample_organization],
      feature_flags = [sample_flag]\<rparr>"

definition empty_db :: Database where
  "empty_db = \<lparr>users = [], organizations = [], feature_flags = []\<rparr>"

text \<open>
  A toy instance of the collaborators: lower-casing acts on the ASCII letters, the hash of
  a password is the password behind a prefix, a token is the text \<open>jwt\<close>, pagination is
  always page 1 of 10.
\<close>

definition ascii_lower :: "char \<Rightarrow> char" where
  "ascii_lower ch =
     (let n = (of_char ch :: nat) in
      if 65 \<le> n \<and> n \<le> 90
      then (case ch of Char b0 b1 b2 b3 b4 b5 b6 b7 \<Rightarrow> Char b0 b1 b2 b3 b4 True b6 b7)
      else ch)"

definition sample_env :: Env where
  "sample_env =
     \<lparr>NewObjectID = 0xd1, Now = 3000,
      ToLower = map ascii_lower,
      GenerateFromPassword = (\<lambda>password. Some (''hash:'' @ password)),
      CompareHashAndPassword = (\<lambda>hash password. hash = ''hash:'' @ password),
      CreateJWT = (\<lambda>objectID. Some ''jwt''),
      GetPaginationParams = (\<lambda>pageQuery limitQuery. (1, 10)),
      NewFeatureFlagRecord = (\<lambda>name defaultValue flagType rules organizationID userID.
        \<lparr>ff_ID = 0xd1, ff_OrganizationID = organizationID, ff_UserID = userID,
         ff_Version = 1, ff_Name = name, ff_Type = flagType,
         ff_Revisions = [], ff_Timestamps = \<lparr>CreatedAt = 3000, UpadtedAt = 3000, DeletedAt = 0\<rparr>\<rparr>)\<rparr>"

text \<open>
  Requests on the sample flag: the caller, the revision identifier in the path and the
  bound body vary.
\<close>

definition sample_context :: "object_id option \<Rightarrow> string \<Rightarrow> string + 'b \<Rightarrow> 'b Context" where
  "sample_context caller revisionID body =
     \<lparr>ContextUserID = caller,
      Param = (\<lambda>name. if name = ''organizationID'' then ''0000000000000000000000a1''
                       else if name = ''featureFlagID'' then ''0000000000000000000000f1''
                       else if name = ''revisionID'' then revisionID
                       else []),
      QueryParam = (\<lambda>name. []),
      Bind = body\<rparr>"

section \<open>Evaluation on the sample database\<close>

lemmas sample_defs =
  sample_context_def sample_db_def empty_db_def sample_env_def sample_flag_def
  sample_organization_def sample_live_def sample_draft_def sample_user_def ascii_lower_def

lemmas repository_defs =
  CustomError_def ObjectIDFromHex_def fromHexChar_def
  UserModel_FindByEmail_def UserModel_InsertOne_def NewUserRecord_def
  OrganizationModel_FindByID_def UserHasPermission_def member_role_def
  FeatureFlagModel_FindByID_def FeatureFlagModel_FindMany_def
  FeatureFlagModel_InsertOne_def FeatureFlagModel_UpdateOne_def NewRevisionRecord_def

section \<open>The approval loop\<close>

text \<open>
  One iteration of the loop rewrites the element at the index and nothing else; after the
  loop every element from the start index on has its new status, decided from the status
  and the identifier it had before.
\<close>

lemma approve_range_done:
  "\<not> index < length revisions \<Longrightarrow> approve_range revisionID index revisions = revisions"
  by (subst approve_range.simps) simp

lemma approve_range_step:
  assumes "index < length revisions"
  shows "approve_range revisionID index revisions =
         approve_range revisionID (Suc index)
           (revisions[index := (revisions ! index)\<lparr>rev_Status :=
              (if rev_Status (revisions ! index) = Live then Draft
               else if rev_ID (revisions ! index) = revisionID then Live
               else Draft)\<rparr>])"
proof (cases "rev_Status (revisions ! index)")
  case Draft
  then have "(revisions ! index)\<lparr>rev_Status := Draft\<rparr> = revisions ! index"
    by (cases "revisions ! index") simp
  then have same: "revisions[index := (revisions ! index)\<lparr>rev_Status := Draft\<rparr>] = revisions"
    by simp
  show ?thesis
    using assms Draft same
    by (subst approve_range.simps) (simp add: Let_def)
next
  case Live
  show ?thesis
    using assms Live
    by (subst approve_range.simps) (simp add: Let_def)
qed

lemma approve_range_length:
  "length (approve_range revisionID index revisions) = length revisions"
proof (induction "length revisions - index" arbitrary: index revisions)
  case 0
  then show ?case by (simp add: approve_range_done)
next
  case (Suc n)
  then have lt: "index < length revisions" by simp
  have "n = length (revisions[index := (revisions ! index)\<lparr>rev_Status :=
              (if rev_Status (revisions ! index) = Live then Draft
               else if rev_ID (revisions ! index) = revisionID then Live
               else Draft)\<rparr>]) - Suc index"
    using Suc.hyps(2) by simp
  from Suc.hyps(1)[OF this] show ?case
    by (simp add: approve_range_step[OF lt])
qed

lemma approve_range_nth:
  "k < length revisions \<Longrightarrow>
   approve_range revisionID index revisions ! k =
     (if index \<le> k
      then (revisions ! k)\<lparr>rev_Status :=
             (if rev_Status (revisions ! k) = Live then Draft
              else if rev_ID (revisions ! k) = revisionID then Live
              else Draft)\<rparr>
      else revisions ! k)"
proof (induction "length revisions - index" arbitrary: index revisions)
  case 0
  then show ?case by (simp add: approve_range_done)
next
  case (Suc n)
  then have lt: "index < length revisions" by simp
  let ?revs = "revisions[index := (revisions ! index)\<lparr>rev_Status :=
              (if rev_Status (revisions ! index) = Live then Draft
               else if rev_ID (revisions ! index) = revisionID then Live
               else Draft)\<rparr>]"
  have n: "n = length ?revs - Suc index"
    using Suc.hyps(2) by simp
  have k: "k < length ?revs" using Suc.prems by simp
  have ih: "approve_range revisionID (Suc index) ?revs ! k =
     (if Suc index \<le> k
      then (?revs ! k)\<lparr>rev_Status :=
             (if rev_Status (?revs ! k) = Live then Draft
              else if rev_ID (?revs ! k) = revisionID then Live
              else Draft)\<rparr>
      else ?revs ! k)"
    by (rule Suc.hyps(1)[OF n k])
  show ?case
  proof (cases "k = index")
    case True
    then show ?thesis
      unfolding approve_range_step[OF lt] ih using lt by simp
  next
    case False
    then have "?revs ! k = revisions ! k" by simp
    then show ?thesis
      unfolding approve_range_step[OF lt] ih using False by auto
  qed
qed


section \<open>Updates of a stored flag\<close>

lemma ff_ID_apply_update [simp]: "ff_ID (apply_update u f) = ff_ID f"
  by (cases u) simp_all

lemma update_first_find:
  "update_first i u fs = Some fs' \<Longrightarrow>
   find (\<lambda>f. ff_ID f = i) fs' = map_option (apply_update u) (find (\<lambda>f. ff_ID f = i) fs)"
  by (induction fs arbitrary: fs') (auto split: if_splits)

lemma UpdateOne_FindByID:
  assumes "FeatureFlagModel_UpdateOne db i u = Inr (objectID, db')"
    and "FeatureFlagModel_FindByID db i = Inr f"
  shows "FeatureFlagModel_FindByID db' i = Inr (apply_update u f)"
  using assms
  by (auto simp: FeatureFlagModel_UpdateOne_def FeatureFlagModel_FindByID_def
      split: option.splits dest!: update_first_find)

section \<open>Revision approval\<close>

text \<open>
  A successful approval returns and stores the loaded flag with the loop applied to its
  revisions and the version counter incremented.
\<close>

lemma ApproveRevision_OK:
  assumes "ApproveRevision e c db = ((StatusOK, body), db')"
    and "ObjectIDFromHex (Param c ''featureFlagID'') = Some featureFlagID"
    and "ObjectIDFromHex (Param c ''revisionID'') = Some revisionID"
    and "FeatureFlagModel_FindByID db featureFlagID = Inr flag"
  shows "body = FeatureFlagBody
           (flag\<lparr>ff_Revisions := approve_range revisionID 0 (ff_Revisions flag),
                 ff_Version := ff_Version flag + 1\<rparr>) \<and>
         FeatureFlagModel_FindByID db' featureFlagID =
           Inr (flag\<lparr>ff_Revisions := approve_range revisionID 0 (ff_Revisions flag),
                     ff_Version := ff_Version flag + 1\<rparr>)"
proof -
  let ?flag' = "flag\<lparr>ff_Revisions := approve_range revisionID 0 (ff_Revisions flag),
                     ff_Version := ff_Version flag + 1\<rparr>"
  from assms obtain objectID where
    body: "body = FeatureFlagBody ?flag'" and
    upd: "FeatureFlagModel_UpdateOne db featureFlagID
            (SetVersionRevisions (ff_Version ?flag') (ff_Revisions ?flag')) = Inr (objectID, db')"
    by (auto simp: ApproveRevision_def CustomError_def Let_def
        split: option.splits sum.splits if_splits prod.splits)
  from UpdateOne_FindByID[OF upd assms(4)] body show ?thesis by simp
qed

text \<open>
  Claim C1. On a flag whose revision list holds a Live revision at position \<open>l\<close> and, at
  another position \<open>r\<close>, a Draft revision that is the only one carrying the approved
  identifier, a successful approval returns and stores a flag in which the revision at
  \<open>r\<close> is the one and only Live revision (the one at \<open>l\<close> is now Draft), and whose version
  counter is the old one plus 1.
\<close>

theorem ApproveRevision_draft_becomes_only_live:
  assumes "ApproveRevision e c db = ((StatusOK, body), db')"
    and "ObjectIDFromHex (Param c ''featureFlagID'') = Some featureFlagID"
    and "ObjectIDFromHex (Param c ''revisionID'') = Some revisionID"
    and "FeatureFlagModel_FindByID db featureFlagID = Inr flag"
    and "r < length (ff_Revisions flag)"
    and "rev_ID (ff_Revisions flag ! r) = revisionID"
    and "rev_Status (ff_Revisions flag ! r) = Draft"
    and "l < length (ff_Revisions flag)"
    and "rev_Status (ff_Revisions flag ! l) = Live"
    and "\<forall>k<length (ff_Revisions flag). k \<noteq> r \<longrightarrow> rev_ID (ff_Revisions flag ! k) \<noteq> revisionID"
  shows "\<exists>flag'. body = FeatureFlagBody flag' \<and>
           FeatureFlagModel_FindByID db' featureFlagID = Inr flag' \<and>
           length (ff_Revisions flag') = length (ff_Revisions flag) \<and>
           (\<forall>k<length (ff_Revisions flag'). rev_Status (ff_Revisions flag' ! k) = Live \<longleftrightarrow> k = r) \<and>
           ff_Revisions flag' ! r = (ff_Revisions flag ! r)\<lparr>rev_Status := Live\<rparr> \<and>
           ff_Revisions flag' ! l = (ff_Revisions flag ! l)\<lparr>rev_Status := Draft\<rparr> \<and>
           ff_Version flag' = ff_Version flag + 1"
proof -
  let ?revs = "ff_Revisions flag"
  let ?flag' = "flag\<lparr>ff_Revisions := approve_range revisionID 0 ?revs,
                     ff_Version := ff_Version flag + 1\<rparr>"
  note ok = ApproveRevision_OK[OF assms(1-4)]
  have len: "length (ff_Revisions ?flag') = length ?revs"
    by (simp add: approve_range_length)
  have live: "rev_Status (ff_Revisions ?flag' ! k) = Live \<longleftrightarrow> k = r" if "k < length ?revs" for k
  proof (cases "k = r")
    case True
    with assms(5-7) show ?thesis by (simp add: approve_range_nth)
  next
    case False
    with assms(10) that have "rev_ID (?revs ! k) \<noteq> revisionID" by simp
    with that False show ?thesis by (simp add: approve_range_nth)
  qed
  have r: "ff_Revisions ?flag' ! r = (?revs ! r)\<lparr>rev_Status := Live\<rparr>"
    using assms(5-7) by (simp add: approve_range_nth)
  have l: "ff_Revisions ?flag' ! l = (?revs ! l)\<lparr>rev_Status := Draft\<rparr>"
    using assms(8,9) by (simp add: approve_range_nth)
  have v: "ff_Version ?flag' = ff_Version flag + 1" by simp
  from ok len live r l v show ?thesis
    by (intro exI[of _ ?flag']) (simp only: len, blast)
qed

text \<open>
  Claim C3. When the approved identifier occurs nowhere in the flag's revision list, a
  successful approval returns and stores the flag with every revision set to Draft (so no
  revision is Live and a previously Live one is demoted) and with the version counter
  incremented by 1 all the same.
\<close>

theorem ApproveRevision_unknown_target:
  assumes "ApproveRevision e c db = ((StatusOK, body), db')"
    and "ObjectIDFromHex (Param c ''featureFlagID'') = Some featureFlagID"
    and "ObjectIDFromHex (Param c ''revisionID'') = Some revisionID"
    and "FeatureFlagModel_FindByID db featureFlagID = Inr flag"
    and "revisionID \<notin> rev_ID ` set (ff_Revisions flag)"
  shows "\<exists>flag'. body = FeatureFlagBody flag' \<and>
           FeatureFlagModel_FindByID db' featureFlagID = Inr flag' \<and>
           ff_Revisions flag' = map (\<lambda>revision. revision\<lparr>rev_Status := Draft\<rparr>) (ff_Revisions flag) \<and>
           list_all (\<lambda>revision. rev_Status revision \<noteq> Live) (ff_Revisions flag') \<and>
           ff_Version flag' = ff_Version flag + 1"
proof -
  let ?revs = "ff_Revisions flag"
  let ?flag' = "flag\<lparr>ff_Revisions := approve_range revisionID 0 ?revs,
                     ff_Version := ff_Version flag + 1\<rparr>"
  note ok = ApproveRevision_OK[OF assms(1-4)]
  have "approve_range revisionID 0 ?revs = map (\<lambda>revision. revision\<lparr>rev_Status := Draft\<rparr>) ?revs"
  proof (rule nth_equalityI)
    show "length (approve_range revisionID 0 ?revs) =
          length (map (\<lambda>revision. revision\<lparr>rev_Status := Draft\<rparr>) ?revs)"
      by (simp add: approve_range_length)
  next
    fix k assume "k < length (approve_range revisionID 0 ?revs)"
    then have k: "k < length ?revs" by (simp add: approve_range_length)
    then have "rev_ID (?revs ! k) \<noteq> revisionID"
      using assms(5) by (metis image_eqI nth_mem)
    with k show "approve_range revisionID 0 ?revs ! k =
                 map (\<lambda>revision. revision\<lparr>rev_Status := Draft\<rparr>) ?revs ! k"
      by (simp add: approve_range_nth)
  qed
  then have revs: "ff_Revisions ?flag' = map (\<lambda>revision. revision\<lparr>rev_Status := Draft\<rparr>) ?revs"
    by simp
  have "list_all (\<lambda>revision. rev_Status revision \<noteq> Live) (ff_Revisions ?flag')"
    unfolding revs by (simp add: list_all_iff)
  with ok revs show ?thesis
    by (intro exI[of _ ?flag']) simp
qed


text \<open>On the sample flag, approving its Draft revision (identifier 2).\<close>

theorem ApproveRevision_draft_becomes_only_live_witness:
  "ApproveRevision sample_env
     (sample_context (Some 0xc1) ''000000000000000000000002'' (Inl []) :: unit Context) sample_db =
     ((StatusOK,
       FeatureFlagBody (sample_flag\<lparr>ff_Version := 2,
         ff_Revisions := [sample_live\<lparr>rev_Status := Draft\<rparr>, sample_draft\<lparr>rev_Status := Live\<rparr>]\<rparr>)),
      sample_db\<lparr>feature_flags := [sample_flag\<lparr>ff_Version := 2,
         ff_Revisions := [sample_live\<lparr>rev_Status := Draft\<rparr>, sample_draft\<lparr>rev_Status := Live\<rparr>]\<rparr>]\<rparr>) \<and>
   FeatureFlagModel_FindByID sample_db 0xf1 = Inr sample_flag \<and>
   rev_ID (ff_Revisions sample_flag ! 1) = 2 \<and>
   rev_Status (ff_Revisions sample_flag ! 1) = Draft \<and>
   rev_Status (ff_Revisions sample_flag ! 0) = Live \<and>
   (\<exists>flag'.
      FeatureFlagModel_FindByID
        (sample_db\<lparr>feature_flags := [sample_flag\<lparr>ff_Version := 2,
           ff_Revisions := [sample_live\<lparr>rev_Status := Draft\<rparr>, sample_draft\<lparr>rev_Status := Live\<rparr>]\<rparr>]\<rparr>)
        0xf1 = Inr flag' \<and>
      rev_Status (ff_Revisions flag' ! 0) = Draft \<and>
      rev_Status (ff_Revisions flag' ! 1) = Live \<and>
      length (ff_Revisions flag') = 2 \<and>
      ff_Version flag' = 2)"
proof -
  let ?c = "sample_context (Some 0xc1) ''000000000000000000000002'' (Inl []) :: unit Context"
  let ?flag' = "sample_flag\<lparr>ff_Version := 2,
         ff_Revisions := [sample_live\<lparr>rev_Status := Draft\<rparr>, sample_draft\<lparr>rev_Status := Live\<rparr>]\<rparr>"
  have ok: "ApproveRevision sample_env ?c sample_db =
     ((StatusOK, FeatureFlagBody ?flag'), sample_db\<lparr>feature_flags := [?flag']\<rparr>)"
    by (simp add: ApproveRevision_def sample_defs repository_defs Let_def approve_range.simps)
  have fid: "ObjectIDFromHex (Param ?c ''featureFlagID'') = Some 0xf1"
    by (simp add: sample_defs repository_defs)
  have rid: "ObjectIDFromHex (Param ?c ''revisionID'') = Some 2"
    by (simp add: sample_defs repository_defs)
  have found: "FeatureFlagModel_FindByID sample_db 0xf1 = Inr sample_flag"
    by (simp add: sample_defs repository_defs)
  have r: "1 < length (ff_Revisions sample_flag)"
    "rev_ID (ff_Revisions sample_flag ! 1) = 2"
    "rev_Status (ff_Revisions sample_flag ! 1) = Draft"
    by (simp_all add: sample_defs)
  have l: "0 < length (ff_Revisions sample_flag)"
    "rev_Status (ff_Revisions sample_flag ! 0) = Live"
    by (simp_all add: sample_defs)
  have uniq: "\<forall>k<length (ff_Revisions sample_flag). k \<noteq> 1 \<longrightarrow>
                rev_ID (ff_Revisions sample_flag ! k) \<noteq> 2"
    by (simp add: sample_defs less_Suc_eq)
  from ApproveRevision_draft_becomes_only_live[OF ok fid rid found r l uniq]
  obtain flag' where
    f: "FeatureFlagModel_FindByID (sample_db\<lparr>feature_flags := [?flag']\<rparr>) 0xf1 = Inr flag'"
    and len: "length (ff_Revisions flag') = length (ff_Revisions sample_flag)"
    and live: "\<forall>k<length (ff_Revisions flag'). rev_Status (ff_Revisions flag' ! k) = Live \<longleftrightarrow> k = 1"
    and v: "ff_Version flag' = ff_Version sample_flag + 1"
    by blast
  from len have len2: "length (ff_Revisions flag') = 2" by (simp add: sample_defs)
  from live len2 have "rev_Status (ff_Revisions flag' ! 0) \<noteq> Live" "rev_Status (ff_Revisions flag' ! 1) = Live"
    by simp_all
  then have st: "rev_Status (ff_Revisions flag' ! 0) = Draft" "rev_Status (ff_Revisions flag' ! 1) = Live"
    by (cases "rev_Status (ff_Revisions flag' ! 0)", simp_all)
  from v have v2: "ff_Version flag' = 2" by (simp add: sample_defs)
  from ok found r l f st len2 v2 show ?thesis by blast
qed

text \<open>
  Claim C2. Approving the revision that is currently Live: on the sample flag, whose
  revision 1 is Live, a successful approval of revision 1 returns and stores the flag
  with revision 1 demoted to Draft and no revision promoted; the version counter goes from
  1 to 2. The promotion test reads the status the revision had before the iteration, so
  it does not fire for a revision that was Live.
\<close>

theorem ApproveRevision_live_target_demoted:
  "ApproveRevision sample_env
     (sample_context (Some 0xc1) ''000000000000000000000001'' (Inl []) :: unit Context) sample_db =
     ((StatusOK,
       FeatureFlagBody (sample_flag\<lparr>ff_Version := 2,
         ff_Revisions := [sample_live\<lparr>rev_Status := Draft\<rparr>, sample_draft]\<rparr>)),
      sample_db\<lparr>feature_flags := [sample_flag\<lparr>ff_Version := 2,
         ff_Revisions := [sample_live\<lparr>rev_Status := Draft\<rparr>, sample_draft]\<rparr>]\<rparr>)"
  by (simp add: ApproveRevision_def sample_defs repository_defs Let_def approve_range.simps)

text \<open>On the sample flag, approving the identifier 3, which no revision carries.\<close>

theorem ApproveRevision_unknown_target_witness:
  "ApproveRevision sample_env
     (sample_context (Some 0xc1) ''000000000000000000000003'' (Inl []) :: unit Context) sample_db =
     ((StatusOK,
       FeatureFlagBody (sample_flag\<lparr>ff_Version := 2,
         ff_Revisions := [sample_live\<lparr>rev_Status := Draft\<rparr>, sample_draft]\<rparr>)),
      sample_db\<lparr>feature_flags := [sample_flag\<lparr>ff_Version := 2,
         ff_Revisions := [sample_live\<lparr>rev_Status := Draft\<rparr>, sample_draft]\<rparr>]\<rparr>) \<and>
   FeatureFlagModel_FindByID sample_db 0xf1 = Inr sample_flag \<and>
   3 \<notin> rev_ID ` set (ff_Revisions sample_flag) \<and>
   (\<exists>flag'.
      FeatureFlagModel_FindByID
        (sample_db\<lparr>feature_flags := [sample_flag\<lparr>ff_Version := 2,
           ff_Revisions := [sample_live\<lparr>rev_Status := Draft\<rparr>, sample_draft]\<rparr>]\<rparr>)
        0xf1 = Inr flag' \<and>
      map rev_Status (ff_Revisions flag') = [Draft, Draft] \<and>
      ff_Version flag' = 2)"
proof -
  let ?c = "sample_context (Some 0xc1) ''000000000000000000000003'' (Inl []) :: unit Context"
  let ?flag' = "sample_flag\<lparr>ff_Version := 2,
         ff_Revisions := [sample_live\<lparr>rev_Status := Draft\<rparr>, sample_draft]\<rparr>"
  have ok: "ApproveRevision sample_env ?c sample_db =
     ((StatusOK, FeatureFlagBody ?flag'), sample_db\<lparr>feature_flags := [?flag']\<rparr>)"
    by (simp add: ApproveRevision_def sample_defs repository_defs Let_def approve_range.simps)
  have fid: "ObjectIDFromHex (Param ?c ''featureFlagID'') = Some 0xf1"
    by (simp add: sample_defs repository_defs)
  have rid: "ObjectIDFromHex (Param ?c ''revisionID'') = Some 3"
    by (simp add: sample_defs repository_defs)
  have found: "FeatureFlagModel_FindByID sample_db 0xf1 = Inr sample_flag"
    by (simp add: sample_defs repository_defs)
  have absent: "3 \<notin> rev_ID ` set (ff_Revisions sample_flag)"
    by (simp add: sample_defs)
  from ApproveRevision_unknown_target[OF ok fid rid found absent]
  obtain flag' where
    f: "FeatureFlagModel_FindByID (sample_db\<lparr>feature_flags := [?flag']\<rparr>) 0xf1 = Inr flag'"
    and revs: "ff_Revisions flag' =
               map (\<lambda>revision. revision\<lparr>rev_Status := Draft\<rparr>) (ff_Revisions sample_flag)"
    and v: "ff_Version flag' = ff_Version sample_flag + 1"
    by blast
  from revs have st: "map rev_Status (ff_Revisions flag') = [Draft, Draft]"
    by (simp add: sample_defs)
  from v have v2: "ff_Version flag' = 2" by (simp add: sample_defs)
  from ok found absent f st v2 show ?thesis by simp
qed

section \<open>Permission check\<close>

text \<open>
  Claim C4. The permission check is a function of the user, the organization record and
  the required level alone, with a truth value as result: a member whose role is
  Collaborator passes the ReadOnly and the Collaborator check; a member whose role is
  ReadOnly passes the ReadOnly check and fails the Collaborator check; a user who is not
  among the members fails both, the result being false and no error.
\<close>

theorem UserHasPermission_levels:
  "(member_role organization userID = Some Collaborator \<longrightarrow>
      UserHasPermission userID organization ReadOnly \<and>
      UserHasPermission userID organization Collaborator) \<and>
   (member_role organization userID = Some ReadOnly \<longrightarrow>
      UserHasPermission userID organization ReadOnly \<and>
      \<not> UserHasPermission userID organization Collaborator) \<and>
   (userID \<notin> fst ` set (org_Members organization) \<longrightarrow>
      \<not> UserHasPermission userID organization ReadOnly \<and>
      \<not> UserHasPermission userID organization Collaborator)"
proof (intro conjI impI)
  assume "member_role organization userID = Some Collaborator"
  then show "UserHasPermission userID organization ReadOnly"
    and "UserHasPermission userID organization Collaborator"
    by (simp_all add: UserHasPermission_def)
next
  assume "member_role organization userID = Some ReadOnly"
  then show "UserHasPermission userID organization ReadOnly"
    and "\<not> UserHasPermission userID organization Collaborator"
    by (simp_all add: UserHasPermission_def)
next
  assume "userID \<notin> fst ` set (org_Members organization)"
  then have "member_role organization userID = None"
    by (simp add: member_role_def map_of_eq_None_iff)
  then show "\<not> UserHasPermission userID organization ReadOnly"
    and "\<not> UserHasPermission userID organization Collaborator"
    by (simp_all add: UserHasPermission_def)
qed

text \<open>The Collaborator, the ReadOnly member and a stranger of the sample organization.\<close>

theorem UserHasPermission_levels_witness:
  "member_role sample_organization 0xc1 = Some Collaborator \<and>
   UserHasPermission 0xc1 sample_organization ReadOnly \<and>
   UserHasPermission 0xc1 sample_organization Collaborator \<and>
   member_role sample_organization 0xc2 = Some ReadOnly \<and>
   UserHasPermission 0xc2 sample_organization ReadOnly \<and>
   \<not> UserHasPermission 0xc2 sample_organization Collaborator \<and>
   0xc3 \<notin> fst ` set (org_Members sample_organization) \<and>
   \<not> UserHasPermission 0xc3 sample_organization ReadOnly \<and>
   \<not> UserHasPermission 0xc3 sample_organization Collaborator"
proof -
  have c: "member_role sample_organization 0xc1 = Some Collaborator"
    by (simp add: member_role_def sample_organization_def)
  have r: "member_role sample_organization 0xc2 = Some ReadOnly"
    by (simp add: member_role_def sample_organization_def)
  have n: "0xc3 \<notin> fst ` set (org_Members sample_organization)"
    by (simp add: sample_organization_def)
  from UserHasPermission_levels[of sample_organization "0xc1"]
       UserHasPermission_levels[of sample_organization "0xc2"]
       UserHasPermission_levels[of sample_organization "0xc3"] c r n
  show ?thesis by blast
qed

section \<open>Sign-up and sign-in\<close>

text \<open>The lookup by e-mail succeeds exactly for the e-mails some stored user carries.\<close>

lemma FindByEmail_registered:
  "(\<exists>found. UserModel_FindByEmail db email = Inr found) \<longleftrightarrow> email \<in> usr_Email ` set (users db)"
proof -
  have "find (\<lambda>u. usr_Email u = email) us = None \<longleftrightarrow> email \<notin> usr_Email ` set us" for us
    by (induction us) auto
  from this[of "users db"] show ?thesis
    by (cases "find (\<lambda>u. usr_Email u = email) (users db)")
       (simp_all add: UserModel_FindByEmail_def)
qed



text \<open>
  Claim C6. For a sign-in request that binds: an e-mail no stored user carries gets
  NotFound; a registered e-mail with a password that does not verify against the stored
  hash gets Unauthorized; a registered e-mail with a verifying password gets Ok with the
  stored user's identifier, e-mail, first and last name and the issued token. The
  database is unchanged in all three cases.
\<close>

theorem PostSignIn_outcomes:
  assumes "Bind c = Inr req"
  shows "(signin_Email req \<notin> usr_Email ` set (users db) \<longrightarrow>
            PostSignIn e c db = ((StatusNotFound, ErrorBody NotFoundError), db)) \<and>
         (UserModel_FindByEmail db (signin_Email req) = Inr ur \<and>
          \<not> CompareHashAndPassword e (usr_Password ur) (signin_Password req) \<longrightarrow>
            PostSignIn e c db = ((StatusUnauthorized, ErrorBody UnauthorizedError), db)) \<and>
         (UserModel_FindByEmail db (signin_Email req) = Inr ur \<and>
          CompareHashAndPassword e (usr_Password ur) (signin_Password req) \<and>
          CreateJWT e (usr_ID ur) = Some token \<longrightarrow>
            PostSignIn e c db =
              ((StatusOK,
                AuthBody \<lparr>auth_ID = usr_ID ur, auth_Email = usr_Email ur,
                          auth_FirstName = usr_FirstName ur,
                          auth_LastName = usr_LastName ur, auth_Token = token\<rparr>), db))"
proof (intro conjI impI)
  assume "signin_Email req \<notin> usr_Email ` set (users db)"
  then have "\<not> (\<exists>found. UserModel_FindByEmail db (signin_Email req) = Inr found)"
    using FindByEmail_registered by blast
  then obtain err where "UserModel_FindByEmail db (signin_Email req) = Inl err"
    by (cases "UserModel_FindByEmail db (signin_Email req)") auto
  with assms show "PostSignIn e c db = ((StatusNotFound, ErrorBody NotFoundError), db)"
    by (simp add: PostSignIn_def CustomError_def)
next
  assume "UserModel_FindByEmail db (signin_Email req) = Inr ur \<and>
          \<not> CompareHashAndPassword e (usr_Password ur) (signin_Password req)"
  with assms show "PostSignIn e c db = ((StatusUnauthorized, ErrorBody UnauthorizedError), db)"
    by (simp add: PostSignIn_def CustomError_def)
next
  assume "UserModel_FindByEmail db (signin_Email req) = Inr ur \<and>
          CompareHashAndPassword e (usr_Password ur) (signin_Password req) \<and>
          CreateJWT e (usr_ID ur) = Some token"
  with assms show "PostSignIn e c db =
              ((StatusOK,
                AuthBody \<lparr>auth_ID = usr_ID ur, auth_Email = usr_Email ur,
                          auth_FirstName = usr_FirstName ur,
                          auth_LastName = usr_LastName ur, auth_Token = token\<rparr>), db)"
    by (simp add: PostSignIn_def)
qed

text \<open>The three sign-ins of the handler tests, on the sample database.\<close>

theorem PostSignIn_outcomes_witness:
  "''nobody@gmail.com'' \<notin> usr_Email ` set (users sample_db) \<and>
   PostSignIn sample_env
     (sample_context None []
       (Inr \<lparr>signin_Email = ''nobody@gmail.com'', signin_Password = ''123123''\<rparr>)) sample_db =
     ((StatusNotFound, ErrorBody NotFoundError), sample_db) \<and>
   UserModel_FindByEmail sample_db ''fizi@gmail.com'' = Inr sample_user \<and>
   \<not> CompareHashAndPassword sample_env (usr_Password sample_user) ''wrongpass'' \<and>
   PostSignIn sample_env
     (sample_context None []
       (Inr \<lparr>signin_Email = ''fizi@gmail.com'', signin_Password = ''wrongpass''\<rparr>)) sample_db =
     ((StatusUnauthorized, ErrorBody UnauthorizedError), sample_db) \<and>
   CompareHashAndPassword sample_env (usr_Password sample_user) ''123123'' \<and>
   CreateJWT sample_env (usr_ID sample_user) = Some ''jwt'' \<and>
   PostSignIn sample_env
     (sample_context None []
       (Inr \<lparr>signin_Email = ''fizi@gmail.com'', signin_Password = ''123123''\<rparr>)) sample_db =
     ((StatusOK,
       AuthBody \<lparr>auth_ID = 0xc1, auth_Email = ''fizi@gmail.com'', auth_FirstName = ''fizi'',
                 auth_LastName = ''valores'', auth_Token = ''jwt''\<rparr>), sample_db)"
proof -
  let ?unknown = "\<lparr>signin_Email = ''nobody@gmail.com'', signin_Password = ''123123''\<rparr>"
  let ?wrong = "\<lparr>signin_Email = ''fizi@gmail.com'', signin_Password = ''wrongpass''\<rparr>"
  let ?right = "\<lparr>signin_Email = ''fizi@gmail.com'', signin_Password = ''123123''\<rparr>"
  have b: "Bind (sample_context None [] (Inr r)) = Inr r" for r :: SignInRequest
    by (simp add: sample_context_def)
  have absent: "signin_Email ?unknown \<notin> usr_Email ` set (users sample_db)"
    by (simp add: sample_db_def sample_user_def)
  have found: "UserModel_FindByEmail sample_db ''fizi@gmail.com'' = Inr sample_user"
    by (simp add: UserModel_FindByEmail_def sample_db_def sample_user_def)
  have bad: "\<not> CompareHashAndPassword sample_env (usr_Password sample_user) ''wrongpass''"
    by (simp add: sample_env_def sample_user_def)
  have good: "CompareHashAndPassword sample_env (usr_Password sample_user) ''123123''"
    by (simp add: sample_env_def sample_user_def)
  have jwt: "CreateJWT sample_env (usr_ID sample_user) = Some ''jwt''"
    by (simp add: sample_env_def)
  from PostSignIn_outcomes[OF b, where db = sample_db and e = sample_env and req = ?unknown] absent
  have r1: "PostSignIn sample_env (sample_context None [] (Inr ?unknown)) sample_db =
            ((StatusNotFound, ErrorBody NotFoundError), sample_db)"
    by blast
  from PostSignIn_outcomes[OF b, where db = sample_db and e = sample_env and req = ?wrong and ur = sample_user] found bad
  have r2: "PostSignIn sample_env (sample_context None [] (Inr ?wrong)) sample_db =
            ((StatusUnauthorized, ErrorBody UnauthorizedError), sample_db)"
    by simp
  from PostSignIn_outcomes[OF b, where db = sample_db and e = sample_env and req = ?right and ur = sample_user and token = "''jwt''"] found good jwt
  have r3: "PostSignIn sample_env (sample_context None [] (Inr ?right)) sample_db =
            ((StatusOK,
              AuthBody \<lparr>auth_ID = usr_ID sample_user, auth_Email = usr_Email sample_user,
                        auth_FirstName = usr_FirstName sample_user,
                        auth_LastName = usr_LastName sample_user, auth_Token = ''jwt''\<rparr>),
             sample_db)"
    by simp
  have fields: "usr_ID sample_user = 0xc1" "usr_Email sample_user = ''fizi@gmail.com''"
    "usr_FirstName sample_user = ''fizi''" "usr_LastName sample_user = ''valores''"
    by (simp_all add: sample_user_def)
  from absent r1 found bad r2 good jwt r3[unfolded fields] show ?thesis by simp
qed

section \<open>Listing\<close>

text \<open>
  A listing that answers Ok has passed every check of the handler: its body carries the
  page the repository returned, the parsed page and page size, and the length of the page.
\<close>

lemma ListFeatureFlags_OK:
  assumes "ListFeatureFlags e c db = ((StatusOK, body), db')"
    and pp: "GetPaginationParams e (QueryParam c ''page'') (QueryParam c ''page_size'') = (page, limit)"
  shows "\<exists>organizationID featureFlags.
     ObjectIDFromHex (Param c ''organizationID'') = Some organizationID \<and>
     FeatureFlagModel_FindMany db organizationID page limit = Inr featureFlags \<and>
     body = ListBody \<lparr>Data = featureFlags, Page = page, PageSize = limit,
                      Total = int (length featureFlags)\<rparr> \<and> db' = db"
proof (cases "ContextUserID c")
  case None
  with assms show ?thesis by (simp add: ListFeatureFlags_def CustomError_def)
next
  case (Some userID)
  show ?thesis
  proof (cases "ObjectIDFromHex (Param c ''organizationID'')")
    case None
    with assms Some show ?thesis by (simp add: ListFeatureFlags_def CustomError_def)
  next
    case oid: (Some organizationID)
    show ?thesis
    proof (cases "OrganizationModel_FindByID db organizationID")
      case (Inl err)
      with assms Some oid show ?thesis by (simp add: ListFeatureFlags_def CustomError_def)
    next
      case (Inr organization)
      show ?thesis
      proof (cases "FeatureFlagModel_FindMany db organizationID page limit")
        case (Inl err)
        with assms Some oid Inr show ?thesis
          by (simp add: ListFeatureFlags_def CustomError_def split: if_splits)
      next
        case many: (Inr featureFlags)
        with assms Some oid Inr show ?thesis
          by (simp add: ListFeatureFlags_def CustomError_def split: if_splits)
      qed
    qed
  qed
qed

text \<open>
  Claim C7. In the response of a successful listing, the total is the number of flags in
  the returned page, the page being the slice of the organization's flags that the parsed
  page and page size select (so the total is the size of the page, not the number of flags
  the organization has); page and page size are the parsed values; the database is
  unchanged; and when no stored flag belongs to the organization the data is empty and the
  total is 0.
\<close>

theorem ListFeatureFlags_total_is_page_length:
  assumes "ListFeatureFlags e c db = ((StatusOK, body), db')"
  shows "\<exists>organizationID response.
           ObjectIDFromHex (Param c ''organizationID'') = Some organizationID \<and>
           body = ListBody response \<and> db' = db \<and>
           Total response = int (length (Data response)) \<and>
           (Page response, PageSize response) =
             GetPaginationParams e (QueryParam c ''page'') (QueryParam c ''page_size'') \<and>
           Data response =
             take (nat (PageSize response))
               (drop (nat ((Page response - 1) * PageSize response))
                 (filter (\<lambda>f. ff_OrganizationID f = organizationID) (feature_flags db))) \<and>
           (organizationID \<notin> ff_OrganizationID ` set (feature_flags db) \<longrightarrow>
              Data response = [] \<and> Total response = 0)"
proof -
  obtain page limit where
    pp: "GetPaginationParams e (QueryParam c ''page'') (QueryParam c ''page_size'') = (page, limit)"
    by (cases "GetPaginationParams e (QueryParam c ''page'') (QueryParam c ''page_size'')")
  let ?flags = "\<lambda>organizationID.
        take (nat limit) (drop (nat ((page - 1) * limit))
          (filter (\<lambda>f. ff_OrganizationID f = organizationID) (feature_flags db)))"
  from ListFeatureFlags_OK[OF assms pp] obtain organizationID where
    oid: "ObjectIDFromHex (Param c ''organizationID'') = Some organizationID" and
    body: "body = ListBody \<lparr>Data = ?flags organizationID, Page = page, PageSize = limit,
                            Total = int (length (?flags organizationID))\<rparr>" and
    db: "db' = db"
    by (auto simp: FeatureFlagModel_FindMany_def)
  have none: "?flags organizationID = []"
    if "organizationID \<notin> ff_OrganizationID ` set (feature_flags db)"
  proof -
    from that have "filter (\<lambda>f. ff_OrganizationID f = organizationID) (feature_flags db) = []"
      by (auto simp: filter_empty_conv)
    then show ?thesis by simp
  qed
  show ?thesis
    by (intro exI[of _ organizationID]
              exI[of _ "\<lparr>Data = ?flags organizationID, Page = page, PageSize = limit,
                          Total = int (length (?flags organizationID))\<rparr>"])
       (simp add: oid body db pp none)
qed

text \<open>
  The ReadOnly member lists the sample organization: with its one flag, with no flag, and
  with two flags at page size 1, where the total is 1.
\<close>

theorem ListFeatureFlags_total_is_page_length_witness:
  "ListFeatureFlags sample_env
     (sample_context (Some 0xc2) [] (Inl []) :: unit Context) sample_db =
     ((StatusOK, ListBody \<lparr>Data = [sample_flag], Page = 1, PageSize = 10, Total = 1\<rparr>),
      sample_db) \<and>
   Total \<lparr>Data = [sample_flag], Page = 1, PageSize = 10, Total = 1\<rparr> =
     int (length (Data \<lparr>Data = [sample_flag], Page = 1, PageSize = 10, Total = 1\<rparr>)) \<and>
   0xa1 \<notin> ff_OrganizationID ` set (feature_flags (sample_db\<lparr>feature_flags := []\<rparr>)) \<and>
   ListFeatureFlags sample_env
     (sample_context (Some 0xc2) [] (Inl []) :: unit Context)
     (sample_db\<lparr>feature_flags := []\<rparr>) =
     ((StatusOK, ListBody \<lparr>Data = [], Page = 1, PageSize = 10, Total = 0\<rparr>),
      sample_db\<lparr>feature_flags := []\<rparr>) \<and>
   length (filter (\<lambda>f. ff_OrganizationID f = 0xa1)
     (feature_flags (sample_db\<lparr>feature_flags := [sample_flag, sample_flag\<lparr>ff_ID := 0xf2\<rparr>]\<rparr>))) = 2 \<and>
   ListFeatureFlags (sample_env\<lparr>GetPaginationParams := (\<lambda>pageQuery limitQuery. (1, 1))\<rparr>)
     (sample_context (Some 0xc2) [] (Inl []) :: unit Context)
     (sample_db\<lparr>feature_flags := [sample_flag, sample_flag\<lparr>ff_ID := 0xf2\<rparr>]\<rparr>) =
     ((StatusOK, ListBody \<lparr>Data = [sample_flag], Page = 1, PageSize = 1, Total = 1\<rparr>),
      sample_db\<lparr>feature_flags := [sample_flag, sample_flag\<lparr>ff_ID := 0xf2\<rparr>]\<rparr>)"
proof -
  have two: "length (filter (\<lambda>f. ff_OrganizationID f = 0xa1)
     (feature_flags (sample_db\<lparr>feature_flags := [sample_flag, sample_flag\<lparr>ff_ID := 0xf2\<rparr>]\<rparr>))) = 2"
    by (simp add: sample_defs)
  have page: "ListFeatureFlags (sample_env\<lparr>GetPaginationParams := (\<lambda>pageQuery limitQuery. (1, 1))\<rparr>)
     (sample_context (Some 0xc2) [] (Inl []) :: unit Context)
     (sample_db\<lparr>feature_flags := [sample_flag, sample_flag\<lparr>ff_ID := 0xf2\<rparr>]\<rparr>) =
     ((StatusOK, ListBody \<lparr>Data = [sample_flag], Page = 1, PageSize = 1, Total = 1\<rparr>),
      sample_db\<lparr>feature_flags := [sample_flag, sample_flag\<lparr>ff_ID := 0xf2\<rparr>]\<rparr>)"
    by (simp add: ListFeatureFlags_def sample_defs repository_defs Let_def)
  let ?c = "sample_context (Some 0xc2) [] (Inl []) :: unit Context"
  let ?one = "\<lparr>Data = [sample_flag], Page = 1, PageSize = 10, Total = 1\<rparr>"
  let ?db0 = "sample_db\<lparr>feature_flags := []\<rparr>"
  have ok1: "ListFeatureFlags sample_env ?c sample_db = ((StatusOK, ListBody ?one), sample_db)"
    by (simp add: ListFeatureFlags_def sample_defs repository_defs Let_def)
  from ListFeatureFlags_total_is_page_length[OF ok1]
  have total1: "Total ?one = int (length (Data ?one))" by auto
  have oid: "ObjectIDFromHex (Param ?c ''organizationID'') = Some 0xa1"
    by (simp add: sample_defs repository_defs)
  have none: "0xa1 \<notin> ff_OrganizationID ` set (feature_flags ?db0)" by simp
  have ok0: "ListFeatureFlags sample_env ?c ?db0 =
             ((StatusOK, snd (fst (ListFeatureFlags sample_env ?c ?db0))),
              snd (ListFeatureFlags sample_env ?c ?db0))"
    by (simp add: ListFeatureFlags_def sample_defs repository_defs Let_def)
  from ListFeatureFlags_total_is_page_length[OF ok0] oid none
  obtain response where
    r: "snd (fst (ListFeatureFlags sample_env ?c ?db0)) = ListBody response"
       "snd (ListFeatureFlags sample_env ?c ?db0) = ?db0"
       "Data response = []" "Total response = 0"
       "(Page response, PageSize response) =
          GetPaginationParams sample_env (QueryParam ?c ''page'') (QueryParam ?c ''page_size'')"
    by auto
  from r(5) have "Page response = 1" "PageSize response = 10"
    by (simp_all add: sample_env_def)
  with r(3,4) have "response = \<lparr>Data = [], Page = 1, PageSize = 10, Total = 0\<rparr>"
    by (cases response) simp
  with ok0 r(1,2) have ok0': "ListFeatureFlags sample_env ?c ?db0 =
            ((StatusOK, ListBody \<lparr>Data = [], Page = 1, PageSize = 10, Total = 0\<rparr>), ?db0)"
    by simp
  from ok1 total1 none ok0' two page show ?thesis by simp
qed

section \<open>Proposing a revision\<close>

text \<open>
  Claim C8. A patch request that binds but whose rule list holds an empty rule: the
  \<^verbatim>\<open>dive,required\<close> tag of the request refuses it, yet on the sample flag the handler
  answers Ok for the Collaborator and appends the revision carrying the empty rule, since
  it never runs the validator.
\<close>

theorem PatchFeatureFlag_accepts_invalid_rule:
  "\<not> validate_PatchFeatureFlagRequest \<lparr>patch_DefaultValue = ''x'', patch_Rules = [Rule []]\<rparr> \<and>
   PatchFeatureFlag sample_env
     (sample_context (Some 0xc1) []
        (Inr \<lparr>patch_DefaultValue = ''x'', patch_Rules = [Rule []]\<rparr>)) sample_db =
     ((StatusOK,
       RevisionBody \<lparr>rev_ID = 0xd1, rev_UserID = 0xc1, rev_Status = Draft,
                     rev_DefaultValue = ''x'', rev_Rules = [Rule []], rev_CreatedAt = 3000\<rparr>),
      sample_db\<lparr>feature_flags :=
        [sample_flag\<lparr>ff_Revisions :=
           [sample_live, sample_draft,
            \<lparr>rev_ID = 0xd1, rev_UserID = 0xc1, rev_Status = Draft,
             rev_DefaultValue = ''x'', rev_Rules = [Rule []], rev_CreatedAt = 3000\<rparr>]\<rparr>]\<rparr>)"
  by (simp add: PatchFeatureFlag_def validate_PatchFeatureFlagRequest_def required_rule_def
      sample_defs repository_defs Let_def)

text \<open>
  An update succeeds only on a stored flag, and it leaves every other flag, the users and
  the organizations as they were.
\<close>

lemma update_first_found:
  "update_first i u fs = Some fs' \<Longrightarrow> \<exists>f. find (\<lambda>f. ff_ID f = i) fs = Some f"
  by (induction fs arbitrary: fs') (auto split: if_splits)

lemma update_first_other:
  "update_first i u fs = Some fs' \<Longrightarrow> j \<noteq> i \<Longrightarrow>
   find (\<lambda>f. ff_ID f = j) fs' = find (\<lambda>f. ff_ID f = j) fs"
  by (induction fs arbitrary: fs') (auto split: if_splits)

lemma UpdateOne_frame:
  assumes "FeatureFlagModel_UpdateOne db i u = Inr (objectID, db')"
  shows "(\<exists>f. FeatureFlagModel_FindByID db i = Inr f) \<and>
         (\<forall>j. j \<noteq> i \<longrightarrow> FeatureFlagModel_FindByID db' j = FeatureFlagModel_FindByID db j) \<and>
         users db' = users db \<and> organizations db' = organizations db"
proof -
  from assms obtain fs where
    fs: "update_first i u (feature_flags db) = Some fs" and db': "db' = db\<lparr>feature_flags := fs\<rparr>"
    by (auto simp: FeatureFlagModel_UpdateOne_def split: option.splits)
  from update_first_found[OF fs] have "\<exists>f. FeatureFlagModel_FindByID db i = Inr f"
    by (auto simp: FeatureFlagModel_FindByID_def)
  moreover have "FeatureFlagModel_FindByID db' j = FeatureFlagModel_FindByID db j" if "j \<noteq> i" for j
    using update_first_other[OF fs that] by (simp add: FeatureFlagModel_FindByID_def db')
  ultimately show ?thesis by (simp add: db')
qed

text \<open>
  A patch that answers Ok has pushed the revision it returns, a Draft authored by the
  caller, onto the flag named in the path.
\<close>

lemma PatchFeatureFlag_OK:
  assumes "PatchFeatureFlag e c db = ((StatusOK, body), db')"
  shows "\<exists>userID featureFlagID revision objectID.
           ContextUserID c = Some userID \<and>
           ObjectIDFromHex (Param c ''featureFlagID'') = Some featureFlagID \<and>
           body = RevisionBody revision \<and>
           rev_Status revision = Draft \<and>
           rev_UserID revision = userID \<and>
           FeatureFlagModel_UpdateOne db featureFlagID (PushRevision revision) =
             Inr (objectID, db')"
  using assms
  by (auto simp: PatchFeatureFlag_def CustomError_def Let_def NewRevisionRecord_def
      split: option.splits sum.splits if_splits prod.splits)

text \<open>
  Claim C9. A successful patch returns one new revision, with status Draft and authored by
  the acting user, and the flag stored under the identifier of the path is afterwards the
  flag that was stored there before with exactly that revision appended at the end of its
  revision list: the earlier revisions, the version counter and all other fields are
  unchanged, as are the other flags, the users and the organizations.
\<close>

theorem PatchFeatureFlag_appends_draft_revision:
  assumes "PatchFeatureFlag e c db = ((StatusOK, body), db')"
  shows "\<exists>userID featureFlagID flag revision flag'.
           ContextUserID c = Some userID \<and>
           ObjectIDFromHex (Param c ''featureFlagID'') = Some featureFlagID \<and>
           FeatureFlagModel_FindByID db featureFlagID = Inr flag \<and>
           body = RevisionBody revision \<and>
           rev_Status revision = Draft \<and>
           rev_UserID revision = userID \<and>
           FeatureFlagModel_FindByID db' featureFlagID = Inr flag' \<and>
           ff_Revisions flag' = ff_Revisions flag @ [revision] \<and>
           ff_Version flag' = ff_Version flag \<and>
           flag' = flag\<lparr>ff_Revisions := ff_Revisions flag @ [revision]\<rparr> \<and>
           (\<forall>other. other \<noteq> featureFlagID \<longrightarrow>
              FeatureFlagModel_FindByID db' other = FeatureFlagModel_FindByID db other) \<and>
           users db' = users db \<and> organizations db' = organizations db"
proof -
  from PatchFeatureFlag_OK[OF assms] obtain userID featureFlagID revision objectID where
    user: "ContextUserID c = Some userID" and
    fid: "ObjectIDFromHex (Param c ''featureFlagID'') = Some featureFlagID" and
    body: "body = RevisionBody revision" and
    draft: "rev_Status revision = Draft" "rev_UserID revision = userID" and
    upd: "FeatureFlagModel_UpdateOne db featureFlagID (PushRevision revision) =
          Inr (objectID, db')"
    by (elim exE conjE)
  note frame = UpdateOne_frame[OF upd]
  from frame obtain flag where
    flag: "FeatureFlagModel_FindByID db featureFlagID = Inr flag"
    by auto
  from frame have
    others: "\<forall>other. other \<noteq> featureFlagID \<longrightarrow>
               FeatureFlagModel_FindByID db' other = FeatureFlagModel_FindByID db other" and
    rest: "users db' = users db" "organizations db' = organizations db"
    by simp_all
  let ?flag' = "flag\<lparr>ff_Revisions := ff_Revisions flag @ [revision]\<rparr>"
  from UpdateOne_FindByID[OF upd flag]
  have flag': "FeatureFlagModel_FindByID db' featureFlagID = Inr ?flag'" by simp
  have version: "ff_Version ?flag' = ff_Version flag"
    and revisions: "ff_Revisions ?flag' = ff_Revisions flag @ [revision]"
    by simp_all
  from user fid flag body draft flag' revisions version others rest show ?thesis
    by (intro exI[of _ userID] exI[of _ featureFlagID] exI[of _ flag]
              exI[of _ revision] exI[of _ ?flag'] conjI refl)
qed

text \<open>The Collaborator proposes a revision with one rule on the sample flag.\<close>

theorem PatchFeatureFlag_appends_draft_revision_witness:
  "PatchFeatureFlag sample_env
     (sample_context (Some 0xc1) []
        (Inr \<lparr>patch_DefaultValue = ''x'', patch_Rules = [Rule ''country=BR'']\<rparr>)) sample_db =
     ((StatusOK,
       RevisionBody \<lparr>rev_ID = 0xd1, rev_UserID = 0xc1, rev_Status = Draft,
                     rev_DefaultValue = ''x'', rev_Rules = [Rule ''country=BR''],
                     rev_CreatedAt = 3000\<rparr>),
      sample_db\<lparr>feature_flags :=
        [sample_flag\<lparr>ff_Revisions :=
           [sample_live, sample_draft,
            \<lparr>rev_ID = 0xd1, rev_UserID = 0xc1, rev_Status = Draft,
             rev_DefaultValue = ''x'', rev_Rules = [Rule ''country=BR''],
             rev_CreatedAt = 3000\<rparr>]\<rparr>]\<rparr>) \<and>
   FeatureFlagModel_FindByID sample_db 0xf1 = Inr sample_flag \<and>
   (\<exists>flag'.
      FeatureFlagModel_FindByID
        (sample_db\<lparr>feature_flags :=
          [sample_flag\<lparr>ff_Revisions :=
             [sample_live, sample_draft,
              \<lparr>rev_ID = 0xd1, rev_UserID = 0xc1, rev_Status = Draft,
               rev_DefaultValue = ''x'', rev_Rules = [Rule ''country=BR''],
               rev_CreatedAt = 3000\<rparr>]\<rparr>]\<rparr>) 0xf1 = Inr flag' \<and>
      ff_Revisions flag' =
        ff_Revisions sample_flag @
          [\<lparr>rev_ID = 0xd1, rev_UserID = 0xc1, rev_Status = Draft,
            rev_DefaultValue = ''x'', rev_Rules = [Rule ''country=BR''],
            rev_CreatedAt = 3000\<rparr>] \<and>
      ff_Version flag' = ff_Version sample_flag)"
proof -
  let ?c = "sample_context (Some 0xc1) []
              (Inr \<lparr>patch_DefaultValue = ''x'', patch_Rules = [Rule ''country=BR'']\<rparr>)"
  let ?rev = "\<lparr>rev_ID = 0xd1, rev_UserID = 0xc1, rev_Status = Draft,
               rev_DefaultValue = ''x'', rev_Rules = [Rule ''country=BR''],
               rev_CreatedAt = 3000\<rparr>"
  let ?db' = "sample_db\<lparr>feature_flags :=
                [sample_flag\<lparr>ff_Revisions := [sample_live, sample_draft, ?rev]\<rparr>]\<rparr>"
  have ok: "PatchFeatureFlag sample_env ?c sample_db = ((StatusOK, RevisionBody ?rev), ?db')"
    by (simp add: PatchFeatureFlag_def sample_defs repository_defs Let_def)
  have fid: "ObjectIDFromHex (Param ?c ''featureFlagID'') = Some 0xf1"
    by (simp add: sample_defs repository_defs)
  have found: "FeatureFlagModel_FindByID sample_db 0xf1 = Inr sample_flag"
    by (simp add: sample_defs repository_defs)
  from PatchFeatureFlag_appends_draft_revision[OF ok]
  obtain featureFlagID flag revision flag' where
    f: "ObjectIDFromHex (Param ?c ''featureFlagID'') = Some featureFlagID"
       "FeatureFlagModel_FindByID sample_db featureFlagID = Inr flag"
       "RevisionBody ?rev = RevisionBody revision"
       "FeatureFlagModel_FindByID ?db' featureFlagID = Inr flag'"
       "ff_Revisions flag' = ff_Revisions flag @ [revision]"
       "ff_Version flag' = ff_Version flag"
    by (elim exE conjE)
  from f(1) fid have "featureFlagID = 0xf1" by simp
  moreover from this f(2) found have "flag = sample_flag" by simp
  moreover from f(3) have "revision = ?rev" by simp
  ultimately have
    "FeatureFlagModel_FindByID ?db' 0xf1 = Inr flag'"
    "ff_Revisions flag' = ff_Revisions sample_flag @ [?rev]"
    "ff_Version flag' = ff_Version sample_flag"
    using f(4-6) by simp_all
  then have "\<exists>flag'. FeatureFlagModel_FindByID ?db' 0xf1 = Inr flag' \<and>
      ff_Revisions flag' = ff_Revisions sample_flag @ [?rev] \<and>
      ff_Version flag' = ff_Version sample_flag"
    by (intro exI[of _ flag'] conjI)
  with ok found show ?thesis by (intro conjI)
qed

section \<open>Unknown organization\<close>

text \<open>The organization lookup fails for an identifier no stored organization carries.\<close>

lemma FindByID_unknown_organization:
  assumes "organizationID \<notin> org_ID ` set (organizations db)"
  shows "OrganizationModel_FindByID db organizationID = Inl ErrNoDocuments"
proof -
  have "organizationID \<notin> org_ID ` set orgs \<Longrightarrow>
        find (\<lambda>org. org_ID org = organizationID) orgs = None" for orgs
    by (induction orgs) auto
  from this[OF assms] show ?thesis
    by (simp add: OrganizationModel_FindByID_def)
qed

text \<open>
  Claim C10, as amended. For each of the five flag operations (list, create, patch,
  approve, delete): when the caller is identified and the organization identifier of the
  path is well-formed but carried by no stored organization, the handler answers
  InternalServerError (not NotFound) and leaves the database unchanged, whoever the caller
  is and whatever the rest of the request holds; no organization record exists on which
  the permission check could run.
\<close>

theorem unknown_organization_is_internal_error:
  assumes "ObjectIDFromHex (param ''organizationID'') = Some organizationID"
    and "organizationID \<notin> org_ID ` set (organizations db)"
  shows "ListFeatureFlags e
           \<lparr>ContextUserID = Some userID, Param = param, QueryParam = query, Bind = noBody\<rparr> db =
           ((StatusInternalServerError, ErrorBody InternalServerError), db) \<and>
         PostFeatureFlag e
           \<lparr>ContextUserID = Some userID, Param = param, QueryParam = query, Bind = postBody\<rparr> db =
           ((StatusInternalServerError, ErrorBody InternalServerError), db) \<and>
         PatchFeatureFlag e
           \<lparr>ContextUserID = Some userID, Param = param, QueryParam = query, Bind = patchBody\<rparr> db =
           ((StatusInternalServerError, ErrorBody InternalServerError), db) \<and>
         ApproveRevision e
           \<lparr>ContextUserID = Some userID, Param = param, QueryParam = query, Bind = noBody\<rparr> db =
           ((StatusInternalServerError, ErrorBody InternalServerError), db) \<and>
         DeleteFeatureFlag e
           \<lparr>ContextUserID = Some userID, Param = param, QueryParam = query, Bind = noBody\<rparr> db =
           ((StatusInternalServerError, ErrorBody InternalServerError), db)"
proof -
  note none = FindByID_unknown_organization[OF assms(2)]
  have "ListFeatureFlags e
           \<lparr>ContextUserID = Some userID, Param = param, QueryParam = query, Bind = noBody\<rparr> db =
           ((StatusInternalServerError, ErrorBody InternalServerError), db)"
    by (simp add: ListFeatureFlags_def CustomError_def assms(1) none split: prod.splits)
  moreover have "PostFeatureFlag e
           \<lparr>ContextUserID = Some userID, Param = param, QueryParam = query, Bind = postBody\<rparr> db =
           ((StatusInternalServerError, ErrorBody InternalServerError), db)"
    by (simp add: PostFeatureFlag_def CustomError_def assms(1) none)
  moreover have "PatchFeatureFlag e
           \<lparr>ContextUserID = Some userID, Param = param, QueryParam = query, Bind = patchBody\<rparr> db =
           ((StatusInternalServerError, ErrorBody InternalServerError), db)"
    by (simp add: PatchFeatureFlag_def CustomError_def assms(1) none)
  moreover have "ApproveRevision e
           \<lparr>ContextUserID = Some userID, Param = param, QueryParam = query, Bind = noBody\<rparr> db =
           ((StatusInternalServerError, ErrorBody InternalServerError), db)"
    by (simp add: ApproveRevision_def CustomError_def assms(1) none)
  moreover have "DeleteFeatureFlag e
           \<lparr>ContextUserID = Some userID, Param = param, QueryParam = query, Bind = noBody\<rparr> db =
           ((StatusInternalServerError, ErrorBody InternalServerError), db)"
    by (simp add: DeleteFeatureFlag_def CustomError_def assms(1) none)
  ultimately show ?thesis by (intro conjI)
qed

text \<open>The Collaborator's requests on a database without organizations.\<close>

theorem unknown_organization_is_internal_error_witness:
  "ObjectIDFromHex ''0000000000000000000000a1'' = Some 0xa1 \<and>
   0xa1 \<notin> org_ID ` set (organizations empty_db) \<and>
   ListFeatureFlags sample_env
     (sample_context (Some 0xc1) ''000000000000000000000002'' (Inl []) :: unit Context) empty_db =
     ((StatusInternalServerError, ErrorBody InternalServerError), empty_db) \<and>
   PostFeatureFlag sample_env
     (sample_context (Some 0xc1) ''000000000000000000000002'' (Inl [])) empty_db =
     ((StatusInternalServerError, ErrorBody InternalServerError), empty_db) \<and>
   PatchFeatureFlag sample_env
     (sample_context (Some 0xc1) ''000000000000000000000002'' (Inl [])) empty_db =
     ((StatusInternalServerError, ErrorBody InternalServerError), empty_db) \<and>
   ApproveRevision sample_env
     (sample_context (Some 0xc1) ''000000000000000000000002'' (Inl []) :: unit Context) empty_db =
     ((StatusInternalServerError, ErrorBody InternalServerError), empty_db) \<and>
   DeleteFeatureFlag sample_env
     (sample_context (Some 0xc1) ''000000000000000000000002'' (Inl []) :: unit Context) empty_db =
     ((StatusInternalServerError, ErrorBody InternalServerError), empty_db)"
proof -
  let ?param = "\<lambda>name. if name = ''organizationID'' then ''0000000000000000000000a1''
                       else if name = ''featureFlagID'' then ''0000000000000000000000f1''
                       else if name = ''revisionID'' then ''000000000000000000000002''
                       else []"
  have oid: "ObjectIDFromHex (?param ''organizationID'') = Some 0xa1"
    by (simp add: ObjectIDFromHex_def fromHexChar_def)
  have none: "0xa1 \<notin> org_ID ` set (organizations empty_db)"
    by (simp add: empty_db_def)
  from unknown_organization_is_internal_error[
      where param = ?param and organizationID = "0xa1" and db = empty_db
        and e = sample_env and userID = "0xc1" and query = "\<lambda>name. []"
        and noBody = "Inl [] :: string + unit" and postBody = "Inl []" and patchBody = "Inl []",
      OF oid none]
    oid none
  show ?thesis by (simp add: sample_context_def)
qed

text \<open>
  Claim C10 as stated, without the condition on the caller, fails: with a well-formed
  identifier of no stored organization and a caller that is not identified, each of the
  five handlers answers Unauthorized, since the caller is resolved before the organization
  is looked up.
\<close>

theorem unknown_organization_unidentified_caller_counterexample:
  "ObjectIDFromHex
     (Param (sample_context None ''000000000000000000000002'' (Inl []) :: unit Context)
        ''organizationID'') = Some 0xa1 \<and>
   0xa1 \<notin> org_ID ` set (organizations empty_db) \<and>
   ListFeatureFlags sample_env
     (sample_context None ''000000000000000000000002'' (Inl []) :: unit Context) empty_db =
     ((StatusUnauthorized, ErrorBody UnauthorizedError), empty_db) \<and>
   PostFeatureFlag sample_env
     (sample_context None ''000000000000000000000002'' (Inl [])) empty_db =
     ((StatusUnauthorized, ErrorBody UnauthorizedError), empty_db) \<and>
   PatchFeatureFlag sample_env
     (sample_context None ''000000000000000000000002'' (Inl [])) empty_db =
     ((StatusUnauthorized, ErrorBody UnauthorizedError), empty_db) \<and>
   ApproveRevision sample_env
     (sample_context None ''000000000000000000000002'' (Inl []) :: unit Context) empty_db =
     ((StatusUnauthorized, ErrorBody UnauthorizedError), empty_db) \<and>
   DeleteFeatureFlag sample_env
     (sample_context None ''000000000000000000000002'' (Inl []) :: unit Context) empty_db =
     ((StatusUnauthorized, ErrorBody UnauthorizedError), empty_db) \<and>
   StatusUnauthorized \<noteq> StatusInternalServerError"
  by (simp add: ListFeatureFlags_def PostFeatureFlag_def PatchFeatureFlag_def ApproveRevision_def
      DeleteFeatureFlag_def sample_context_def empty_db_def sample_env_def CustomError_def
      ObjectIDFromHex_def fromHexChar_def)

end
